theory Spec2Isabelle
  imports Main
begin

text \<open>
  A model of the program \<^verbatim>\<open>nobel_people_fetcher.py\<close>: it asks for a year, fetches the
  laureates of the Nobel Prize in physics from the public API, and prints those whose first
  prize is of that year. Every function of the program is a function here with the same
  name; what the program does to its environment (the request, the printed lines, the
  calls of the logger, the prompts) is the list of events a function returns beside its
  result, and the environment's answers (the network, the typed lines) are arguments.
\<close>

section \<open>Python values, exceptions and observable events\<close>

text \<open>
  \<^verbatim>\<open>response.json()\<close> yields nested Python objects: \<^verbatim>\<open>None\<close>, booleans, unbounded
  integers, floats, strings, lists and dictionaries with string keys. A float is kept as
  the exact dyadic number \<open>m * 2^e\<close> it denotes (or as one of the three special values),
  which is all the program observes of it: truncation by \<^verbatim>\<open>int()\<close> and the zero test.
  A dictionary is an association list in insertion order; a parsed dictionary has distinct
  keys. Strings are byte strings, so the model speaks about ASCII text.
\<close>

datatype pyfloat = Finite int int | PosInf | NegInf | NaN

datatype json =
    JNull
  | JBool bool
  | JInt int
  | JFloat pyfloat
  | JStr string
  | JArr "json list"
  | JObj "(string \<times> json) list"

text \<open>
  The exceptions the program can meet. \<open>KeyError\<close> carries its argument, because the
  display routine formats it into a log line. \<open>Timeout\<close>, \<open>TooManyRedirects\<close> and
  \<open>RequestException\<close> are the instances of \<^verbatim>\<open>requests.exceptions.RequestException\<close>,
  the last one standing for every instance that is neither of the first two (its argument
  names the class); \<open>Exception\<close> stands for any other subclass of Python's
  \<^verbatim>\<open>Exception\<close> that the HTTP library may raise.
\<close>

datatype exc =
    KeyError json
  | IndexError
  | TypeError
  | ValueError
  | OverflowError
  | EOFError
  | Timeout
  | TooManyRedirects
  | RequestException string
  | Exception string

text \<open>
  A call either returns, or an exception leaves it, or \<^verbatim>\<open>sys.exit\<close> ends the process
  with a status.
\<close>

datatype 'a result = Ret 'a | Raised exc | Exited int

text \<open>
  An f-string is a list of fragments: literal text, and \<^verbatim>\<open>str()\<close> of an interpolated
  object, which is recorded as the object itself.
\<close>

datatype frag = Lit string | Str_json json | Str_exc exc

datatype level = INFO | WARNING | ERROR

text \<open>
  What the process does to its environment, in order: the GET request with its URL and
  timeout in seconds, a \<^verbatim>\<open>print\<close> call with the line it writes, a call of
  \<^verbatim>\<open>logging.info/warning/error\<close> with the message and the further positional arguments
  exactly as passed, and the prompt written by \<^verbatim>\<open>input\<close>.
\<close>

datatype event =
    HttpGet string nat
  | Print "frag list"
  | Log level "frag list" "exc list"
  | Prompt string

section \<open>Built-in operations of Python\<close>

subsection \<open>Decimal text of an integer: \<^verbatim>\<open>str(n)\<close>\<close>

fun str_nat :: "nat \<Rightarrow> string" where
  "str_nat n =
     (if n < 10 then [''0123456789'' ! n]
      else str_nat (n div 10) @ [''0123456789'' ! (n mod 10)])"

declare str_nat.simps [simp del]

definition str_int :: "int \<Rightarrow> string" where
  "str_int i = (if i < 0 then CHR ''-'' # str_nat (nat (- i)) else str_nat (nat i))"

subsection \<open>Integer of a string: \<^verbatim>\<open>int(s)\<close>\<close>

text \<open>
  \<^verbatim>\<open>int(s)\<close> in base ten: surrounding whitespace is dropped, one sign is allowed, then
  decimal digits follow, where single underscores may separate digits. Anything else is a
  \<^verbatim>\<open>ValueError\<close>, here \<open>None\<close>.
\<close>

definition is_space :: "char \<Rightarrow> bool" where
  "is_space c = (c \<in> set [CHR '' '', CHR 0x09, CHR 0x0A, CHR 0x0B, CHR 0x0C, CHR 0x0D])"

definition strip :: "string \<Rightarrow> string" where
  "strip s = rev (dropWhile is_space (rev (dropWhile is_space s)))"

definition digit_val :: "char \<Rightarrow> nat option" where
  "digit_val c =
     map_of [(CHR ''0'', 0), (CHR ''1'', 1), (CHR ''2'', 2), (CHR ''3'', 3), (CHR ''4'', 4),
             (CHR ''5'', 5), (CHR ''6'', 6), (CHR ''7'', 7), (CHR ''8'', 8), (CHR ''9'', 9)] c"

fun more_digits :: "nat \<Rightarrow> string \<Rightarrow> nat option" where
  "more_digits acc [] = Some acc"
| "more_digits acc (c # cs) =
     (case digit_val c of
        Some d \<Rightarrow> more_digits (10 * acc + d) cs
      | None \<Rightarrow>
          (if c = CHR ''_'' then
             (case cs of
                [] \<Rightarrow> None
              | c' # cs' \<Rightarrow>
                  (case digit_val c' of
                     Some d \<Rightarrow> more_digits (10 * acc + d) cs'
                   | None \<Rightarrow> None))
           else None))"

definition digits :: "string \<Rightarrow> nat option" where
  "digits s =
     (case s of
        [] \<Rightarrow> None
      | c # cs \<Rightarrow> (case digit_val c of Some d \<Rightarrow> more_digits d cs | None \<Rightarrow> None))"

definition int_of_str :: "string \<Rightarrow> int option" where
  "int_of_str s =
     (case strip s of
        [] \<Rightarrow> None
      | c # cs \<Rightarrow>
          (if c = CHR ''-'' then map_option (\<lambda>n. - int n) (digits cs)
           else if c = CHR ''+'' then map_option int (digits cs)
           else map_option int (digits (c # cs))))"

subsection \<open>Integer of an object: \<^verbatim>\<open>int(v)\<close>\<close>

definition trunc_float :: "int \<Rightarrow> int \<Rightarrow> int" where
  "trunc_float m e =
     (if 0 \<le> e then m * 2 ^ nat e
      else if 0 \<le> m then m div 2 ^ nat (- e)
      else - ((- m) div 2 ^ nat (- e)))"

fun py_int :: "json \<Rightarrow> exc + int" where
  "py_int (JStr s) = (case int_of_str s of None \<Rightarrow> Inl ValueError | Some n \<Rightarrow> Inr n)"
| "py_int (JInt n) = Inr n"
| "py_int (JBool b) = Inr (if b then 1 else 0)"
| "py_int (JFloat (Finite m e)) = Inr (trunc_float m e)"
| "py_int (JFloat NaN) = Inl ValueError"
| "py_int (JFloat PosInf) = Inl OverflowError"
| "py_int (JFloat NegInf) = Inl OverflowError"
| "py_int JNull = Inl TypeError"
| "py_int (JArr xs) = Inl TypeError"
| "py_int (JObj kvs) = Inl TypeError"

subsection \<open>Subscription, membership, truth value, iteration\<close>

text \<open>\<^verbatim>\<open>v[k]\<close> for a string key \<open>k\<close>: only a dictionary accepts it.\<close>

fun getitem :: "json \<Rightarrow> string \<Rightarrow> exc + json" where
  "getitem (JObj kvs) k =
     (case map_of kvs k of None \<Rightarrow> Inl (KeyError (JStr k)) | Some v \<Rightarrow> Inr v)"
| "getitem v k = Inl TypeError"

text \<open>
  \<^verbatim>\<open>v[0]\<close>: the first element of a list or the first character of a string, an
  \<^verbatim>\<open>IndexError\<close> when there is none; on a dictionary the key \<open>0\<close> is looked up, and
  the keys of a decoded JSON object are strings, so it is never found.
\<close>

fun getitem0 :: "json \<Rightarrow> exc + json" where
  "getitem0 (JArr []) = Inl IndexError"
| "getitem0 (JArr (x # xs)) = Inr x"
| "getitem0 (JStr []) = Inl IndexError"
| "getitem0 (JStr (c # cs)) = Inr (JStr [c])"
| "getitem0 (JObj kvs) = Inl (KeyError (JInt 0))"
| "getitem0 v = Inl TypeError"

fun is_substring :: "string \<Rightarrow> string \<Rightarrow> bool" where
  "is_substring k [] = (k = [])"
| "is_substring k (c # cs) = (take (length k) (c # cs) = k \<or> is_substring k cs)"

text \<open>\<^verbatim>\<open>k in v\<close> for a string \<open>k\<close>.\<close>

fun contains :: "string \<Rightarrow> json \<Rightarrow> exc + bool" where
  "contains k (JObj kvs) = Inr (k \<in> set (map fst kvs))"
| "contains k (JArr xs) = Inr (JStr k \<in> set xs)"
| "contains k (JStr s) = Inr (is_substring k s)"
| "contains k v = Inl TypeError"

fun truthy :: "json \<Rightarrow> bool" where
  "truthy JNull = False"
| "truthy (JBool b) = b"
| "truthy (JInt n) = (n \<noteq> 0)"
| "truthy (JFloat (Finite m e)) = (m \<noteq> 0)"
| "truthy (JFloat f) = True"
| "truthy (JStr s) = (s \<noteq> [])"
| "truthy (JArr xs) = (xs \<noteq> [])"
| "truthy (JObj kvs) = (kvs \<noteq> [])"

text \<open>The elements a \<^verbatim>\<open>for\<close> loop visits.\<close>

fun iter :: "json \<Rightarrow> exc + json list" where
  "iter (JArr xs) = Inr xs"
| "iter (JObj kvs) = Inr (map (\<lambda>kv. JStr (fst kv)) kvs)"
| "iter (JStr s) = Inr (map (\<lambda>c. JStr [c]) s)"
| "iter v = Inl TypeError"

subsection \<open>Sequencing of operations that may raise\<close>

text \<open>An exception raised by the first operation leaves the whole expression.\<close>

definition and_then :: "exc + 'a \<Rightarrow> ('a \<Rightarrow> exc + 'b) \<Rightarrow> exc + 'b" where
  "and_then x f = (case x of Inl e \<Rightarrow> Inl e | Inr v \<Rightarrow> f v)"

subsection \<open>The logging module\<close>

text \<open>
  What a call of \<^verbatim>\<open>logging.info/warning/error\<close> leads to. The root logger is configured
  at level \<^verbatim>\<open>INFO\<close>, so a call of each of the three levels reaches the handler. The
  handler formats the message of the record: a message passed without further arguments is
  taken as it is; a message passed with arguments is formatted as \<^verbatim>\<open>msg % args\<close>. When
  the message is literal text without any \<^verbatim>\<open>%\<close>, that operator raises \<^verbatim>\<open>TypeError\<close>
  (not all arguments converted): the handler catches it and writes a report of the logging
  error to standard error, and no record of the call's level is emitted. A message with a
  \<^verbatim>\<open>%\<close> passed together with arguments does not occur in the program; its formatting is
  left open.
\<close>

datatype emission = Logged level "frag list" | Logging_error | Unmodelled

fun literal :: "frag list \<Rightarrow> string option" where
  "literal [] = Some []"
| "literal (Lit s # fs) = map_option (\<lambda>t. s @ t) (literal fs)"
| "literal (f # fs) = None"

definition emit :: "level \<Rightarrow> frag list \<Rightarrow> exc list \<Rightarrow> emission" where
  "emit lv msg args =
     (if args = [] then Logged lv msg
      else (case literal msg of
              None \<Rightarrow> Unmodelled
            | Some s \<Rightarrow> if CHR 0x25 \<in> set s then Unmodelled else Logging_error))"

text \<open>What the calls of the logger in a trace lead to, in order.\<close>

fun emissions :: "event list \<Rightarrow> emission list" where
  "emissions [] = []"
| "emissions (Log lv msg args # tr) = emit lv msg args # emissions tr"
| "emissions (e # tr) = emissions tr"

section \<open>The client: class \<^verbatim>\<open>NobelApiFetcher\<close>\<close>

record NobelApiFetcher =
  category :: string
  api_version :: string
  laureates_api_url :: string
  api_params :: string
  all_laureates_data :: json

text \<open>The constructor \<^verbatim>\<open>__init__(category, api_version, year_from, year_to)\<close>.\<close>

definition init :: "string \<Rightarrow> string \<Rightarrow> int \<Rightarrow> int \<Rightarrow> NobelApiFetcher" where
  "init cat ver year_from year_to =
     \<lparr> category = cat,
       api_version = ver,
       laureates_api_url = ''https://api.nobelprize.org/'' @ ver @ ''/laureates'',
       api_params = ''limit=5000&nobelPrizeYear='' @ str_int year_from @ ''&yearTo=''
                    @ str_int year_to @ ''&format=json&nobelPrizeCategory='' @ cat,
       all_laureates_data = JArr [] \<rparr>"

definition url_with_params :: "NobelApiFetcher \<Rightarrow> string" where
  "url_with_params self = laureates_api_url self @ ''?'' @ api_params self"

subsection \<open>Fetching: \<^verbatim>\<open>_get_laureates_data\<close>\<close>

text \<open>
  The network is a parameter: for a URL it tells how the three library calls
  \<^verbatim>\<open>requests.get(url, timeout=8)\<close>, \<^verbatim>\<open>raise_for_status()\<close> and \<^verbatim>\<open>response.json()\<close>
  end together, with an exception of one of them or with the decoded body.
\<close>

datatype http_outcome = Raises exc | Json json

type_synonym network = "string \<Rightarrow> http_outcome"

text \<open>
  The \<^verbatim>\<open>try\<close> block: the exception that leaves it, or the events it causes after the
  request together with the value it assigns to \<^verbatim>\<open>laureates_data\<close>.
\<close>

definition try_block :: "http_outcome \<Rightarrow> exc + (event list \<times> json)" where
  "try_block outcome =
     (case outcome of
        Raises e \<Rightarrow> Inl e
      | Json data \<Rightarrow>
          and_then (contains ''laureates'' data) (\<lambda>present.
            if present then
              and_then (getitem data ''laureates'') (\<lambda>laureates_data. Inr ([], laureates_data))
            else
              Inr ([Log WARNING [Lit (''No '' @ [CHR 0x27] @ ''laureates'' @ [CHR 0x27]
                                      @ '' in response data'')] []], JArr [])))"

text \<open>
  The four \<^verbatim>\<open>except\<close> clauses, tried in the order of the source: the message and the
  further arguments passed to \<^verbatim>\<open>logging.error\<close>. Each clause then calls
  \<^verbatim>\<open>sys.exit(1)\<close>.
\<close>

fun except_clause :: "exc \<Rightarrow> event" where
  "except_clause Timeout = Log ERROR [Lit ''Request timed out''] []"
| "except_clause TooManyRedirects = Log ERROR [Lit ''Too many redirects''] []"
| "except_clause (RequestException c) =
     Log ERROR [Lit ''A request error occurred:''] [RequestException c]"
| "except_clause e = Log ERROR [Lit ''An unexpected error occurred:''] [e]"

definition get_laureates_data :: "NobelApiFetcher \<Rightarrow> network \<Rightarrow> event list \<times> json result" where
  "get_laureates_data self net =
     (let url = url_with_params self in
      case try_block (net url) of
        Inl e \<Rightarrow> ([HttpGet url 8, except_clause e], Exited 1)
      | Inr (tr, laureates_data) \<Rightarrow> (HttpGet url 8 # tr, Ret laureates_data))"

subsection \<open>Displaying one record: \<^verbatim>\<open>_print_single_laureate_info\<close>\<close>

text \<open>The argument of the \<^verbatim>\<open>KeyError\<close> that the \<^verbatim>\<open>try\<close> block raises itself.\<close>

definition prizes_not_found :: json where
  "prizes_not_found =
     JStr ([CHR 0x27] @ ''nobelPrizes'' @ [CHR 0x27] @ '' not found in laureate data'')"

text \<open>The \<^verbatim>\<open>try\<close> block: the three values read from the record, or the exception.\<close>

definition laureate_fields :: "json \<Rightarrow> exc + (json \<times> json \<times> json)" where
  "laureate_fields laureate_data =
     and_then (getitem laureate_data ''knownName'') (\<lambda>known_name.
     and_then (getitem known_name ''en'') (\<lambda>full_name.
     and_then (contains ''nobelPrizes'' laureate_data) (\<lambda>present.
       if present then
         and_then (getitem laureate_data ''nobelPrizes'') (\<lambda>prizes.
         and_then (getitem0 prizes) (\<lambda>prize.
         and_then (getitem prize ''awardYear'') (\<lambda>award_year.
         and_then (getitem laureate_data ''nobelPrizes'') (\<lambda>prizes'.
         and_then (getitem0 prizes') (\<lambda>prize'.
         and_then (getitem prize' ''affiliations'') (\<lambda>affs.
         and_then (getitem0 affs) (\<lambda>aff.
         and_then (getitem aff ''name'') (\<lambda>aff_name.
         and_then (getitem aff_name ''en'') (\<lambda>affiliations.
         Inr (full_name, award_year, affiliations))))))))))
       else Inl (KeyError prizes_not_found))))"

text \<open>The \<^verbatim>\<open>else\<close> block: separator, three labelled lines and an empty line.\<close>

definition block :: "json \<Rightarrow> json \<Rightarrow> json \<Rightarrow> event list" where
  "block full_name award_year affiliations =
     [Print [Lit ''---------------------------------''],
      Print [Lit ''Full name: '', Str_json full_name],
      Print [Lit ''Award year: '', Str_json award_year],
      Print [Lit ''Affiliations: '', Str_json affiliations],
      Print []]"

definition print_single_laureate_info :: "json \<Rightarrow> event list \<times> unit result" where
  "print_single_laureate_info laureate_data =
     (case laureate_fields laureate_data of
        Inl (KeyError k) \<Rightarrow>
          ([Log ERROR [Lit ''Failed to print laureate info: '', Str_exc (KeyError k)] []], Ret ())
      | Inl e \<Rightarrow> ([], Raised e)
      | Inr (full_name, award_year, affiliations) \<Rightarrow>
          (block full_name award_year affiliations, Ret ()))"

subsection \<open>Filtering by year: \<^verbatim>\<open>find_specific_year_laureates_info\<close>\<close>

text \<open>The expression \<^verbatim>\<open>int(laureate_data['nobelPrizes'][0]['awardYear'])\<close>.\<close>

definition award_year_of :: "json \<Rightarrow> exc + int" where
  "award_year_of laureate_data =
     and_then (getitem laureate_data ''nobelPrizes'') (\<lambda>prizes.
     and_then (getitem0 prizes) (\<lambda>prize.
     and_then (getitem prize ''awardYear'') py_int))"

text \<open>
  The \<^verbatim>\<open>for\<close> loop over the records, with the flag \<^verbatim>\<open>laureate_found\<close> as loop state.
  Nothing in the loop catches an exception, so the first one ends it.
\<close>

fun laureates_loop :: "int \<Rightarrow> json list \<Rightarrow> bool \<Rightarrow> event list \<times> bool result" where
  "laureates_loop award_year [] laureate_found = ([], Ret laureate_found)"
| "laureates_loop award_year (laureate_data # rest) laureate_found =
     (case award_year_of laureate_data of
        Inl e \<Rightarrow> ([], Raised e)
      | Inr y \<Rightarrow>
          if y = award_year then
            (case print_single_laureate_info laureate_data of
               (tr, Ret u) \<Rightarrow>
                 (case laureates_loop award_year rest True of (tr', r) \<Rightarrow> (tr @ tr', r))
             | (tr, Raised e) \<Rightarrow> (tr, Raised e)
             | (tr, Exited c) \<Rightarrow> (tr, Exited c))
          else laureates_loop award_year rest laureate_found)"

text \<open>The body of the method after the fetch (the \<^verbatim>\<open>if\<close> statement on the fetched data).\<close>

definition report :: "json \<Rightarrow> int \<Rightarrow> event list \<times> unit result" where
  "report data award_year =
     (if truthy data then
        (case iter data of
           Inl e \<Rightarrow> ([], Raised e)
         | Inr records \<Rightarrow>
             (case laureates_loop award_year records False of
                (tr, Ret laureate_found) \<Rightarrow>
                  (if \<not> laureate_found
                   then (tr @ [Log INFO [Lit (''No laureates were found in '' @ str_int award_year
                                              @ ''!'')] []], Ret ())
                   else (tr, Ret ()))
              | (tr, Raised e) \<Rightarrow> (tr, Raised e)
              | (tr, Exited c) \<Rightarrow> (tr, Exited c)))
      else ([Log ERROR [Lit ''Laureates data not found!''] []], Ret ()))"

text \<open>
  The method returns the client with the fetched data stored in \<^verbatim>\<open>_all_laureates_data\<close>.
\<close>

definition find_specific_year_laureates_info ::
    "NobelApiFetcher \<Rightarrow> network \<Rightarrow> int \<Rightarrow> event list \<times> NobelApiFetcher result" where
  "find_specific_year_laureates_info self net award_year =
     (case get_laureates_data self net of
        (tr, Raised e) \<Rightarrow> (tr, Raised e)
      | (tr, Exited c) \<Rightarrow> (tr, Exited c)
      | (tr, Ret data) \<Rightarrow>
          (case report data award_year of
             (tr', Ret u) \<Rightarrow> (tr @ tr', Ret (self\<lparr>all_laureates_data := data\<rparr>))
           | (tr', Raised e) \<Rightarrow> (tr @ tr', Raised e)
           | (tr', Exited c) \<Rightarrow> (tr @ tr', Exited c)))"

section \<open>The input collector: \<^verbatim>\<open>get_year_from_user\<close>\<close>

text \<open>
  Standard input is a function from the number of the read to the line \<^verbatim>\<open>input\<close>
  returns there, \<open>None\<close> when the input has ended (\<^verbatim>\<open>input\<close> raises \<^verbatim>\<open>EOFError\<close>,
  which the loop does not catch). The loop \<^verbatim>\<open>while True\<close> need not end, so the function
  is partial: \<open>None\<close> is a run that prompts forever.
\<close>

type_synonym stdin = "nat \<Rightarrow> string option"

definition prompt :: event where
  "prompt = Prompt ''Enter the year from which to search for Nobel Prize winners: ''"

definition not_a_year :: "event list" where
  "not_a_year = [Print [Lit ''Entered number is not a year between 2000 and 2023!''],
                 Print [Lit (''Try again.'' @ [CHR 0x0A])]]"

definition not_a_number :: "event list" where
  "not_a_number = [Print [Lit (''Entered value is not a number! Try again.'' @ [CHR 0x0A])]]"

partial_function (option) get_year_loop ::
    "stdin \<Rightarrow> nat \<Rightarrow> event list \<Rightarrow> (event list \<times> int result) option" where
  "get_year_loop inp i tr =
     (case inp i of
        None \<Rightarrow> Some (tr @ [prompt], Raised EOFError)
      | Some line \<Rightarrow>
          (case int_of_str line of
             None \<Rightarrow> get_year_loop inp (Suc i) (tr @ prompt # not_a_number)
           | Some year \<Rightarrow>
               if 2000 \<le> year \<and> year \<le> 2023 then Some (tr @ [prompt], Ret year)
               else get_year_loop inp (Suc i) (tr @ prompt # not_a_year)))"

declare get_year_loop.simps [code]

definition get_year_from_user :: "stdin \<Rightarrow> (event list \<times> int result) option" where
  "get_year_from_user inp = get_year_loop inp 0 []"

section \<open>The program\<close>

text \<open>The statements under \<^verbatim>\<open>if __name__ == "__main__"\<close>.\<close>

definition main :: "stdin \<Rightarrow> network \<Rightarrow> (event list \<times> unit result) option" where
  "main inp net =
     (case get_year_from_user inp of
        None \<Rightarrow> None
      | Some (tr, Raised e) \<Rightarrow> Some (tr, Raised e)
      | Some (tr, Exited c) \<Rightarrow> Some (tr, Exited c)
      | Some (tr, Ret year) \<Rightarrow>
          (case find_specific_year_laureates_info (init ''phy'' ''2.1'' 2000 2023) net year of
             (tr', Ret nobel_fetcher) \<Rightarrow> Some (tr @ tr', Ret ())
           | (tr', Raised e) \<Rightarrow> Some (tr @ tr', Raised e)
           | (tr', Exited c) \<Rightarrow> Some (tr @ tr', Exited c)))"

text \<open>The status the process ends with: an uncaught exception ends it with status 1.\<close>

fun exit_code :: "'a result \<Rightarrow> int" where
  "exit_code (Ret v) = 0"
| "exit_code (Raised e) = 1"
| "exit_code (Exited c) = c"

section \<open>What the claims speak about\<close>

subsection \<open>Observations on a trace\<close>

fun is_print :: "event \<Rightarrow> bool" where
  "is_print (Print line) = True"
| "is_print e = False"

text \<open>The lines written by \<^verbatim>\<open>print\<close>, in order.\<close>

definition printed :: "event list \<Rightarrow> event list" where
  "printed tr = filter is_print tr"

fun is_request :: "event \<Rightarrow> bool" where
  "is_request (HttpGet url t) = True"
| "is_request e = False"

text \<open>The GET requests, in order.\<close>

definition requests :: "event list \<Rightarrow> event list" where
  "requests tr = filter is_request tr"

text \<open>The first line of a formatted block.\<close>

definition separator :: event where
  "separator = Print [Lit ''---------------------------------'']"

definition count_blocks :: "event list \<Rightarrow> nat" where
  "count_blocks tr = length (filter (\<lambda>e. e = separator) tr)"

text \<open>\<^verbatim>\<open>isinstance(e, requests.exceptions.RequestException)\<close>: a transport failure.\<close>

fun is_request_exception :: "exc \<Rightarrow> bool" where
  "is_request_exception Timeout = True"
| "is_request_exception TooManyRedirects = True"
| "is_request_exception (RequestException c) = True"
| "is_request_exception e = False"

subsection \<open>The record shape of the specification\<close>

text \<open>
  The specification names the parts of a record by their place in the JSON document:
  \<^verbatim>\<open>knownName.en\<close>, \<^verbatim>\<open>nobelPrizes[0].awardYear\<close> and
  \<^verbatim>\<open>nobelPrizes[0].affiliations[0].name.en\<close>. A place is a path of member names and
  first-element steps; following it through objects and arrays gives the value there, if
  there is one. These definitions follow the specification's words, not the code.
\<close>

datatype step = Member string | First

fun follow :: "json \<Rightarrow> step list \<Rightarrow> json option" where
  "follow v [] = Some v"
| "follow (JObj kvs) (Member k # p) =
     (case map_of kvs k of None \<Rightarrow> None | Some v \<Rightarrow> follow v p)"
| "follow (JArr (x # xs)) (First # p) = follow x p"
| "follow v p = None"

definition display_name :: "json \<Rightarrow> json option" where
  "display_name r = follow r [Member ''knownName'', Member ''en'']"

definition first_award_year :: "json \<Rightarrow> json option" where
  "first_award_year r = follow r [Member ''nobelPrizes'', First, Member ''awardYear'']"

definition first_affiliation :: "json \<Rightarrow> json option" where
  "first_affiliation r =
     follow r [Member ''nobelPrizes'', First, Member ''affiliations'', First,
               Member ''name'', Member ''en'']"

text \<open>The integer that the award year of the first prize coerces to, if it does.\<close>

definition year_of :: "json \<Rightarrow> int option" where
  "year_of r =
     (case first_award_year r of
        None \<Rightarrow> None
      | Some v \<Rightarrow> (case py_int v of Inl e \<Rightarrow> None | Inr n \<Rightarrow> Some n))"

definition has_year :: "json \<Rightarrow> bool" where
  "has_year r = (year_of r \<noteq> None)"

definition matches :: "int \<Rightarrow> json \<Rightarrow> bool" where
  "matches y r = (year_of r = Some y)"

definition displayable :: "json \<Rightarrow> bool" where
  "displayable r = (display_name r \<noteq> None \<and> first_affiliation r \<noteq> None)"

text \<open>
  The block the specification expects for a record: its English display name, the award
  year of its first prize and the English name of the first affiliation of that prize.
\<close>

definition record_block :: "json \<Rightarrow> event list" where
  "record_block r =
     block (the (display_name r)) (the (first_award_year r)) (the (first_affiliation r))"

subsection \<open>The answers of the input collector\<close>

text \<open>The year a typed line is accepted as: an integer from 2000 to 2023.\<close>

definition accepted :: "string \<Rightarrow> int option" where
  "accepted line =
     (case int_of_str line of
        None \<Rightarrow> None
      | Some year \<Rightarrow> if 2000 \<le> year \<and> year \<le> 2023 then Some year else None)"

text \<open>
  What a rejected line is answered with after its prompt: that it is not a number, or that
  it is not a year of the range.
\<close>

definition rejection :: "string \<Rightarrow> event list" where
  "rejection line =
     prompt # (case int_of_str line of None \<Rightarrow> not_a_number | Some year \<Rightarrow> not_a_year)"

subsection \<open>Inputs used in the examples\<close>

text \<open>A network that answers every URL alike.\<close>

definition always :: "http_outcome \<Rightarrow> network" where
  "always outcome url = outcome"

text \<open>
  The exception of \<^verbatim>\<open>requests.get\<close> when no connection can be made:
  \<^verbatim>\<open>requests.exceptions.ConnectionError\<close>, a request exception that is neither a timeout
  nor a redirect loop.
\<close>

definition connection_error :: exc where
  "connection_error = RequestException ''ConnectionError''"

text \<open>
  The exception of \<^verbatim>\<open>response.json()\<close> for a body that is not valid JSON:
  \<^verbatim>\<open>requests.exceptions.JSONDecodeError\<close>, which the library (from version 2.27 on)
  derives from \<^verbatim>\<open>RequestException\<close>.
\<close>

definition json_decode_error :: exc where
  "json_decode_error = RequestException ''JSONDecodeError''"

text \<open>The client as the program constructs it, \<^verbatim>\<open>NobelApiFetcher()\<close>.\<close>

definition default_fetcher :: NobelApiFetcher where
  "default_fetcher = init ''phy'' ''2.1'' 2000 2023"

definition prize :: "string \<Rightarrow> string \<Rightarrow> json" where
  "prize y a =
     JObj [(''awardYear'', JStr y),
           (''affiliations'', JArr [JObj [(''name'', JObj [(''en'', JStr a)])]])]"

text \<open>A record with all the parts the display reads.\<close>

definition laureate :: "string \<Rightarrow> string \<Rightarrow> string \<Rightarrow> json" where
  "laureate n y a =
     JObj [(''knownName'', JObj [(''en'', JStr n)]), (''nobelPrizes'', JArr [prize y a])]"

text \<open>Three such records, two of them with a first prize of 1903.\<close>

definition three_laureates :: "json list" where
  "three_laureates =
     [laureate ''Marie Curie'' ''1903'' ''University of Paris'',
      laureate ''Wolfgang Ketterle'' ''2001'' ''MIT'',
      laureate ''Pierre Curie'' ''1903'' ''EPCI'']"

text \<open>A record without the key \<^verbatim>\<open>nobelPrizes\<close>.\<close>

definition no_prizes :: json where
  "no_prizes = JObj [(''knownName'', JObj [(''en'', JStr ''A. Nonymous'')])]"

text \<open>A record without the key \<^verbatim>\<open>knownName\<close>, with a first prize of 2001.\<close>

definition no_name :: json where
  "no_name = JObj [(''nobelPrizes'', JArr [prize ''2001'' ''MIT''])]"

text \<open>A record without the key \<^verbatim>\<open>knownName\<close> and with an empty list of prizes.\<close>

definition no_name_empty_prizes :: json where
  "no_name_empty_prizes = JObj [(''nobelPrizes'', JArr [])]"

text \<open>A named record with an empty list of prizes.\<close>

definition empty_prizes :: json where
  "empty_prizes =
     JObj [(''knownName'', JObj [(''en'', JStr ''B. Lank'')]), (''nobelPrizes'', JArr [])]"

text \<open>A named record whose first prize has an award year and an empty list of affiliations.\<close>

definition no_affiliations :: json where
  "no_affiliations =
     JObj [(''knownName'', JObj [(''en'', JStr ''C. Lone'')]),
           (''nobelPrizes'', JArr [JObj [(''awardYear'', JStr ''2001''),
                                         (''affiliations'', JArr [])]])]"

text \<open>The body \<^verbatim>\<open>{"laureates": records}\<close>.\<close>

definition body :: "json list \<Rightarrow> http_outcome" where
  "body records = Json (JObj [(''laureates'', JArr records)])"

text \<open>Three lines typed at the prompt, then the end of the input.\<close>

definition typed :: stdin where
  "typed i = (if i = 0 then Some ''abc'' else if i = 1 then Some ''1999''
              else if i = 2 then Some ''2005'' else None)"

section \<open>Auxiliary facts\<close>

subsection \<open>Sequencing and lookups\<close>

lemma and_then_Inl [simp]: "and_then (Inl e) f = Inl e"
  by (simp add: and_then_def)

lemma and_then_Inr [simp]: "and_then (Inr v) f = f v"
  by (simp add: and_then_def)

lemma contains_obj: "contains k (JObj kvs) = Inr (map_of kvs k \<noteq> None)"
  by (simp add: map_of_eq_None_iff)

lemma follow_Member:
  "follow r (Member k # p) = Some v \<longleftrightarrow>
     (\<exists>kvs w. r = JObj kvs \<and> map_of kvs k = Some w \<and> follow w p = Some v)"
  by (cases r) (auto split: option.splits)

lemma follow_First:
  "follow r (First # p) = Some v \<longleftrightarrow> (\<exists>x xs. r = JArr (x # xs) \<and> follow x p = Some v)"
proof (cases r)
  case (JArr ys)
  then show ?thesis by (cases ys) auto
qed auto

lemma follow_Nil: "follow r [] = Some v \<longleftrightarrow> r = v"
  by auto

lemmas follow_iff = follow_Member follow_First follow_Nil

subsection \<open>The fetch\<close>

lemma try_block_obj:
  "try_block (Json (JObj kvs)) =
     (case map_of kvs ''laureates'' of
        None \<Rightarrow> Inr ([Log WARNING [Lit (''No '' @ [CHR 0x27] @ ''laureates'' @ [CHR 0x27]
                                      @ '' in response data'')] []], JArr [])
      | Some v \<Rightarrow> Inr ([], v))"
  by (simp add: try_block_def contains_obj del: contains.simps(1) split: option.split)

lemma get_laureates_data_Inl:
  "try_block (net (url_with_params self)) = Inl e \<Longrightarrow>
   get_laureates_data self net = ([HttpGet (url_with_params self) 8, except_clause e], Exited 1)"
  by (simp add: get_laureates_data_def)

lemma find_exited:
  "get_laureates_data self net = (tr, Exited c) \<Longrightarrow>
   find_specific_year_laureates_info self net y = (tr, Exited c)"
  by (simp add: find_specific_year_laureates_info_def)

subsection \<open>The scan and the display\<close>

lemma year_of_award_year_of:
  assumes "year_of r = Some n"
  shows "award_year_of r = Inr n"
proof -
  obtain v where v: "first_award_year r = Some v" and n: "py_int v = Inr n"
    using assms by (auto simp: year_of_def split: option.splits sum.splits)
  from v show ?thesis
    by (auto simp: first_award_year_def follow_iff award_year_of_def n)
qed

lemma displayable_laureate_fields:
  assumes "first_award_year r = Some y" and "display_name r = Some n"
    and "first_affiliation r = Some a"
  shows "laureate_fields r = Inr (n, y, a)"
  using assms
  by (auto simp: first_award_year_def display_name_def first_affiliation_def follow_iff
      laureate_fields_def contains_obj simp del: contains.simps(1))

lemma print_displayable:
  assumes "has_year r" and "displayable r"
  shows "print_single_laureate_info r = (record_block r, Ret ())"
proof -
  obtain y where y: "first_award_year r = Some y"
    using assms(1) by (auto simp: has_year_def year_of_def split: option.splits)
  obtain n a where n: "display_name r = Some n" and a: "first_affiliation r = Some a"
    using assms(2) by (auto simp: displayable_def)
  show ?thesis
    by (simp add: print_single_laureate_info_def displayable_laureate_fields [OF y n a]
        record_block_def y n a)
qed

lemma laureates_loop_well_formed:
  assumes "\<forall>r\<in>set rs. has_year r" and "\<forall>r\<in>set rs. matches Y r \<longrightarrow> displayable r"
  shows "laureates_loop Y rs found =
           (concat (map record_block (filter (matches Y) rs)),
            Ret (found \<or> filter (matches Y) rs \<noteq> []))"
  using assms
proof (induction rs arbitrary: found)
  case Nil
  then show ?case by simp
next
  case (Cons r rs)
  from Cons.prems obtain n where n: "year_of r = Some n"
    by (auto simp: has_year_def)
  then have ay: "award_year_of r = Inr n"
    by (rule year_of_award_year_of)
  have ih: "\<And>f. laureates_loop Y rs f =
      (concat (map record_block (filter (matches Y) rs)), Ret (f \<or> filter (matches Y) rs \<noteq> []))"
    using Cons by simp
  show ?case
  proof (cases "n = Y")
    case True
    then have m: "matches Y r" using n by (simp add: matches_def)
    then have "print_single_laureate_info r = (record_block r, Ret ())"
      using Cons.prems by (simp add: print_displayable)
    then show ?thesis using True m ay ih by simp
  next
    case False
    then have "\<not> matches Y r" using n by (simp add: matches_def)
    then show ?thesis using False ay ih by simp
  qed
qed

lemma printed_record_block: "printed (record_block r) = record_block r"
  by (simp add: printed_def record_block_def block_def)

lemma printed_append: "printed (xs @ ys) = printed xs @ printed ys"
  by (simp add: printed_def)

lemma printed_blocks: "printed (concat (map record_block rs)) = concat (map record_block rs)"
  by (induction rs) (simp_all add: printed_append printed_record_block, simp add: printed_def)

lemma count_record_block: "count_blocks (record_block r) = 1"
  by (simp add: count_blocks_def record_block_def block_def separator_def)

lemma count_blocks_append: "count_blocks (xs @ ys) = count_blocks xs + count_blocks ys"
  by (simp add: count_blocks_def)

lemma count_blocks_concat: "count_blocks (concat (map record_block rs)) = length rs"
  by (induction rs) (simp_all add: count_blocks_append count_record_block, simp add: count_blocks_def)

lemma report_well_formed:
  assumes "\<forall>r\<in>set rs. has_year r" and "\<forall>r\<in>set rs. matches Y r \<longrightarrow> displayable r"
  shows "report (JArr rs) Y =
           (if rs = [] then [Log ERROR [Lit ''Laureates data not found!''] []]
            else concat (map record_block (filter (matches Y) rs)) @
                 (if filter (matches Y) rs = []
                  then [Log INFO [Lit (''No laureates were found in '' @ str_int Y @ ''!'')] []]
                  else []),
            Ret ())"
  by (simp add: report_def laureates_loop_well_formed [OF assms])

lemma find_returned:
  assumes "get_laureates_data self net = (tr, Ret data)" and "report data y = (tr', Ret ())"
  shows "find_specific_year_laureates_info self net y =
           (tr @ tr', Ret (self\<lparr>all_laureates_data := data\<rparr>))"
  using assms by (simp add: find_specific_year_laureates_info_def)

lemma is_print_except_clause [simp]: "is_print (except_clause e) = False"
  by (cases e) simp_all

lemma is_request_except_clause [simp]: "is_request (except_clause e) = False"
  by (cases e) simp_all

lemma printed_fetch: "printed (fst (get_laureates_data self net)) = []"
  by (auto simp: get_laureates_data_def try_block_def printed_def Let_def and_then_def
      split: sum.splits http_outcome.splits prod.splits if_splits)

lemma requests_fetch:
  "requests (fst (get_laureates_data self net)) = [HttpGet (url_with_params self) 8]"
  by (auto simp: get_laureates_data_def try_block_def requests_def Let_def and_then_def
      split: sum.splits http_outcome.splits prod.splits if_splits)

lemma requests_print: "print_single_laureate_info r = (tr, res) \<Longrightarrow> requests tr = []"
  by (auto simp: print_single_laureate_info_def requests_def block_def
      split: sum.splits exc.splits prod.splits)

lemma requests_append: "requests (xs @ ys) = requests xs @ requests ys"
  by (simp add: requests_def)

lemma requests_Nil: "requests [] = []"
  by (simp add: requests_def)

lemma requests_loop: "laureates_loop y rs found = (tr, res) \<Longrightarrow> requests tr = []"
proof (induction rs arbitrary: found tr res)
  case Nil
  then show ?case by (auto simp: requests_def)
next
  case (Cons r rs)
  then show ?case
    by (auto simp: requests_append requests_Nil dest: requests_print
        split: sum.splits prod.splits result.splits if_splits)
qed

lemma requests_report: "report data y = (tr, res) \<Longrightarrow> requests tr = []"
  by (auto simp: report_def requests_append requests_Nil requests_def [of "[_]"]
      dest: requests_loop split: sum.splits prod.splits result.splits if_splits)

lemma requests_find:
  "requests (fst (find_specific_year_laureates_info self net y)) =
     [HttpGet (url_with_params self) 8]"
  using requests_fetch [of self net]
  by (auto simp: find_specific_year_laureates_info_def requests_append
      dest: requests_report split: prod.splits result.splits)

lemma find_raised:
  assumes "get_laureates_data self net = (tr, Ret data)" and "report data y = (tr', Raised e)"
  shows "find_specific_year_laureates_info self net y = (tr @ tr', Raised e)"
  using assms by (simp add: find_specific_year_laureates_info_def)

subsection \<open>The input loop\<close>

lemma get_year_loop_rejected:
  assumes "inp i = Some line" and "accepted line = None"
  shows "get_year_loop inp i tr = get_year_loop inp (Suc i) (tr @ rejection line)"
  using assms
  by (subst get_year_loop.simps)
     (auto simp: accepted_def rejection_def split: option.splits if_splits)

lemma get_year_loop_accepted:
  assumes "inp i = Some line" and "accepted line = Some year"
  shows "get_year_loop inp i tr = Some (tr @ [prompt], Ret year)"
  using assms
  by (subst get_year_loop.simps)
     (auto simp: accepted_def split: option.splits if_splits)

lemma get_year_loop_eof:
  assumes "inp i = None"
  shows "get_year_loop inp i tr = Some (tr @ [prompt], Raised EOFError)"
  using assms by (subst get_year_loop.simps) simp

lemma get_year_loop_first_accepted:
  assumes "inp n = Some line" and "accepted line = Some year"
    and "\<forall>i. k \<le> i \<and> i < n \<longrightarrow> (\<exists>l. inp i = Some l \<and> accepted l = None)"
    and "k \<le> n"
  shows "get_year_loop inp k tr =
           Some (tr @ concat (map (\<lambda>i. rejection (the (inp i))) [k..<n]) @ [prompt], Ret year)"
  using assms(3,4)
proof (induction "n - k" arbitrary: k tr)
  case 0
  then have "k = n" by simp
  then show ?case
    using assms(1,2) by (simp add: get_year_loop_accepted)
next
  case (Suc d)
  then have lt: "k < n" by simp
  then obtain l where l: "inp k = Some l" "accepted l = None"
    using Suc.prems(1) by auto
  have "get_year_loop inp (Suc k) (tr @ rejection l) =
      Some ((tr @ rejection l) @ concat (map (\<lambda>i. rejection (the (inp i))) [Suc k..<n]) @ [prompt],
            Ret year)"
    using Suc.hyps(2) Suc.prems lt by (intro Suc.hyps(1)) auto
  then show ?case
    using lt l by (simp add: get_year_loop_rejected [of inp k l] upt_conv_Cons)
qed

lemma get_year_loop_in_range:
  assumes "get_year_loop inp i tr = Some res"
  shows "\<forall>tr' y. res = (tr', Ret y) \<longrightarrow> 2000 \<le> y \<and> y \<le> 2023"
proof (rule get_year_loop.raw_induct
    [where P = "\<lambda>inp i tr res. \<forall>tr' y. res = (tr', Ret y) \<longrightarrow> 2000 \<le> y \<and> y \<le> 2023",
     OF _ assms])
  fix loop :: "stdin \<Rightarrow> nat \<Rightarrow> event list \<Rightarrow> (event list \<times> int result) option"
    and inp i tr res
  assume ih: "\<And>inp i tr res. loop inp i tr = Some res \<Longrightarrow>
                \<forall>tr' y. res = (tr', Ret y) \<longrightarrow> 2000 \<le> y \<and> y \<le> 2023"
    and step: "(case inp i of
                  None \<Rightarrow> Some (tr @ [prompt], Raised EOFError)
                | Some line \<Rightarrow>
                    (case int_of_str line of
                       None \<Rightarrow> loop inp (Suc i) (tr @ prompt # not_a_number)
                     | Some year \<Rightarrow>
                         if 2000 \<le> year \<and> year \<le> 2023 then Some (tr @ [prompt], Ret year)
                         else loop inp (Suc i) (tr @ prompt # not_a_year))) = Some res"
  show "\<forall>tr' y. res = (tr', Ret y) \<longrightarrow> 2000 \<le> y \<and> y \<le> 2023"
    using step by (auto split: option.splits if_splits dest!: ih)
qed

lemma main_exited:
  assumes "get_year_from_user inp = Some (tr0, Ret year)"
    and "find_specific_year_laureates_info default_fetcher net year = (tr, Exited c)"
  shows "main inp net = Some (tr0 @ tr, Exited c)"
  using assms by (simp add: main_def default_fetcher_def)

subsection \<open>Runs without a match, and runs whose request fails\<close>

text \<open>
  When every record has a first prize whose award year coerces to an integer other than
  the requested one, nothing is printed and the information that no laureate was found is
  logged after the scan.
\<close>

lemma no_match_with_readable_years:
  assumes "get_laureates_data self net = (tr, Ret (JArr records))"
    and "records \<noteq> []"
    and "\<forall>r\<in>set records. \<exists>n. year_of r = Some n \<and> n \<noteq> Y"
  shows "find_specific_year_laureates_info self net Y =
           (tr @ [Log INFO [Lit (''No laureates were found in '' @ str_int Y @ ''!'')] []],
            Ret (self\<lparr>all_laureates_data := JArr records\<rparr>))
       \<and> printed (fst (find_specific_year_laureates_info self net Y)) = []"
proof -
  have h: "\<forall>r\<in>set records. has_year r"
    using assms(3) by (auto simp: has_year_def)
  have n: "\<forall>r\<in>set records. \<not> matches Y r"
    using assms(3) by (auto simp: matches_def)
  then have d: "\<forall>r\<in>set records. matches Y r \<longrightarrow> displayable r"
    by simp
  have e: "filter (matches Y) records = []"
    using n by (simp add: filter_empty_conv)
  have r: "report (JArr records) Y =
      ([Log INFO [Lit (''No laureates were found in '' @ str_int Y @ ''!'')] []], Ret ())"
    using assms(2) e by (simp add: report_well_formed [OF h d])
  have f: "find_specific_year_laureates_info self net Y =
           (tr @ [Log INFO [Lit (''No laureates were found in '' @ str_int Y @ ''!'')] []],
            Ret (self\<lparr>all_laureates_data := JArr records\<rparr>))"
    by (rule find_returned [OF assms(1) r])
  have "printed tr = []"
    using printed_fetch [of self net] assms by simp
  then show ?thesis
    using f by (simp add: printed_append) (simp add: printed_def)
qed

text \<open>
  When the request raises a request exception, the fetch calls \<^verbatim>\<open>logging.error\<close> and
  ends the process with status 1; so do the method and the program.
\<close>

lemma request_exception_exits:
  assumes "net (url_with_params self) = Raises e" and "is_request_exception e"
  shows "get_laureates_data self net =
           ([HttpGet (url_with_params self) 8,
             (case e of Timeout \<Rightarrow> Log ERROR [Lit ''Request timed out''] []
                      | TooManyRedirects \<Rightarrow> Log ERROR [Lit ''Too many redirects''] []
                      | _ \<Rightarrow> Log ERROR [Lit ''A request error occurred:''] [e])],
            Exited 1)
       \<and> find_specific_year_laureates_info self net award_year =
           ([HttpGet (url_with_params self) 8,
             (case e of Timeout \<Rightarrow> Log ERROR [Lit ''Request timed out''] []
                      | TooManyRedirects \<Rightarrow> Log ERROR [Lit ''Too many redirects''] []
                      | _ \<Rightarrow> Log ERROR [Lit ''A request error occurred:''] [e])],
            Exited 1)
       \<and> printed (fst (find_specific_year_laureates_info self net award_year)) = []
       \<and> (self = default_fetcher \<and> get_year_from_user inp = Some (pre, Ret award_year) \<longrightarrow>
            main inp net =
              Some (pre @
                    [HttpGet (url_with_params self) 8,
                     (case e of Timeout \<Rightarrow> Log ERROR [Lit ''Request timed out''] []
                              | TooManyRedirects \<Rightarrow> Log ERROR [Lit ''Too many redirects''] []
                              | _ \<Rightarrow> Log ERROR [Lit ''A request error occurred:''] [e])],
                    Exited 1)
            \<and> exit_code (snd (the (main inp net))) = 1)"
proof -
  let ?log = "case e of Timeout \<Rightarrow> Log ERROR [Lit ''Request timed out''] []
                      | TooManyRedirects \<Rightarrow> Log ERROR [Lit ''Too many redirects''] []
                      | _ \<Rightarrow> Log ERROR [Lit ''A request error occurred:''] [e]"
  have "try_block (net (url_with_params self)) = Inl e"
    using assms(1) by (simp add: try_block_def)
  then have g: "get_laureates_data self net =
      ([HttpGet (url_with_params self) 8, except_clause e], Exited 1)"
    by (rule get_laureates_data_Inl)
  have c: "except_clause e = ?log"
    using assms(2) by (cases e) simp_all
  have f: "find_specific_year_laureates_info self net award_year =
      ([HttpGet (url_with_params self) 8, ?log], Exited 1)"
    using find_exited [OF g] c by simp
  have p: "is_print ?log = False"
    using c is_print_except_clause [of e] by simp
  have m: "main inp net = Some (pre @ [HttpGet (url_with_params self) 8, ?log], Exited 1)"
    if "self = default_fetcher" and "get_year_from_user inp = Some (pre, Ret award_year)"
    using that f main_exited [of inp pre award_year net] by simp
  show ?thesis
    using g c f p m by (simp add: printed_def)
qed

subsection \<open>The examples\<close>

lemma int_of_str_1903: "int_of_str ''1903'' = Some 1903"
  by (simp add: int_of_str_def strip_def is_space_def digits_def digit_val_def)

lemma int_of_str_2001: "int_of_str ''2001'' = Some 2001"
  by (simp add: int_of_str_def strip_def is_space_def digits_def digit_val_def)

lemma year_of_laureate: "year_of (laureate n y a) = int_of_str y"
  by (simp add: year_of_def first_award_year_def laureate_def prize_def split: option.split)

lemma str_int_2005: "str_int 2005 = ''2005''"
  by (simp add: str_int_def str_nat.simps)

lemma fetch_body:
  "get_laureates_data self (always (body records)) =
     ([HttpGet (url_with_params self) 8], Ret (JArr records))"
  by (simp add: get_laureates_data_def always_def body_def try_block_def)

lemma displayable_laureate: "displayable (laureate n y a)"
  by (simp add: displayable_def display_name_def first_affiliation_def laureate_def prize_def)

lemma record_block_laureate:
  "record_block (laureate n y a) = block (JStr n) (JStr y) (JStr a)"
  by (simp add: record_block_def display_name_def first_affiliation_def first_award_year_def
      laureate_def prize_def)

lemma year_of_no_name: "year_of no_name = Some 2001"
  by (simp add: year_of_def first_award_year_def no_name_def prize_def int_of_str_2001)

lemma accepted_abc: "accepted ''abc'' = None"
  by (simp add: accepted_def int_of_str_def strip_def is_space_def digits_def digit_val_def)

lemma int_of_str_1999: "int_of_str ''1999'' = Some 1999"
  by (simp add: int_of_str_def strip_def is_space_def digits_def digit_val_def)

lemma int_of_str_2005: "int_of_str ''2005'' = Some 2005"
  by (simp add: int_of_str_def strip_def is_space_def digits_def digit_val_def)

lemma int_of_str_abc: "int_of_str ''abc'' = None"
  by (simp add: int_of_str_def strip_def is_space_def digits_def digit_val_def)

lemma typed_year:
  "get_year_from_user typed =
     Some (prompt # not_a_number @ prompt # not_a_year @ [prompt], Ret 2005)"
proof -
  have "get_year_loop typed 0 [] = get_year_loop typed 1 (rejection ''abc'')"
    using get_year_loop_rejected [of typed 0 "''abc''" "[]"]
    by (simp add: typed_def accepted_abc)
  also have "\<dots> = get_year_loop typed 2 (rejection ''abc'' @ rejection ''1999'')"
    using get_year_loop_rejected [of typed 1 "''1999''" "rejection ''abc''"]
    by (simp add: typed_def accepted_def int_of_str_1999 numeral_2_eq_2)
  also have "\<dots> = Some ((rejection ''abc'' @ rejection ''1999'') @ [prompt], Ret 2005)"
    by (rule get_year_loop_accepted [of typed 2 "''2005''"])
       (simp_all add: typed_def accepted_def int_of_str_2005)
  finally show ?thesis
    by (simp add: get_year_from_user_def rejection_def int_of_str_abc int_of_str_1999)
qed

lemma year_of_no_prizes: "year_of no_prizes = None"
  by (simp add: year_of_def first_award_year_def no_prizes_def)

section \<open>The claims\<close>

text \<open>
  C1 (as amended). For every response whose top-level object maps \<^verbatim>\<open>laureates\<close> to a
  list of records, each with a first prize whose award year coerces to an integer, in
  which exactly \<open>K\<close> records have an award year that coerces to the requested year \<open>Y\<close>
  and each of these has an English display name and an English name of the first
  affiliation of its first prize, the method prints exactly \<open>K\<close> blocks, in the order of
  the records, and each block shows the display name, the award year of the first prize
  and the name of the first affiliation of the first prize of its record; then it returns.
\<close>

theorem matching_records_printed:
  assumes "net (url_with_params self) = Json (JObj members)"
    and "map_of members ''laureates'' = Some (JArr records)"
    and "\<forall>r\<in>set records. has_year r"
    and "\<forall>r\<in>set records. matches Y r \<longrightarrow> displayable r"
  shows "printed (fst (find_specific_year_laureates_info self net Y)) =
           concat (map record_block (filter (matches Y) records))
       \<and> count_blocks (fst (find_specific_year_laureates_info self net Y)) =
           length (filter (matches Y) records)
       \<and> snd (find_specific_year_laureates_info self net Y) =
           Ret (self\<lparr>all_laureates_data := JArr records\<rparr>)"
proof -
  let ?blocks = "concat (map record_block (filter (matches Y) records))"
  let ?log = "if records = [] then [Log ERROR [Lit ''Laureates data not found!''] []]
              else if filter (matches Y) records = []
              then [Log INFO [Lit (''No laureates were found in '' @ str_int Y @ ''!'')] []]
              else []"
  have g: "get_laureates_data self net = ([HttpGet (url_with_params self) 8], Ret (JArr records))"
    using assms(1,2) by (simp add: get_laureates_data_def try_block_obj)
  have r: "report (JArr records) Y = (?blocks @ ?log, Ret ())"
    by (simp add: report_well_formed [OF assms(3,4)])
  have f: "find_specific_year_laureates_info self net Y =
      ([HttpGet (url_with_params self) 8] @ ?blocks @ ?log,
       Ret (self\<lparr>all_laureates_data := JArr records\<rparr>))"
    by (rule find_returned [OF g r])
  have p: "printed ?log = []" and c: "count_blocks ?log = 0"
    by (simp_all add: printed_def count_blocks_def separator_def)
  have q: "printed [HttpGet (url_with_params self) 8] = []"
    and d: "count_blocks [HttpGet (url_with_params self) 8] = 0"
    by (simp_all add: printed_def count_blocks_def separator_def)
  have "printed ([HttpGet (url_with_params self) 8] @ ?blocks @ ?log) = ?blocks"
    by (simp only: printed_append printed_blocks p q append_Nil append_Nil2)
  moreover
  have "count_blocks ([HttpGet (url_with_params self) 8] @ ?blocks @ ?log) =
      length (filter (matches Y) records)"
    by (simp only: count_blocks_append count_blocks_concat c d add_0 add_0_right)
  ultimately show ?thesis
    unfolding f by (simp only: fst_conv snd_conv simp_thms)
qed

theorem matching_records_printed_witness:
  "printed (fst (find_specific_year_laureates_info default_fetcher
                   (always (body three_laureates)) 1903)) =
     block (JStr ''Marie Curie'') (JStr ''1903'') (JStr ''University of Paris'') @
     block (JStr ''Pierre Curie'') (JStr ''1903'') (JStr ''EPCI'')
   \<and> count_blocks (fst (find_specific_year_laureates_info default_fetcher
                          (always (body three_laureates)) 1903)) = 2"
  using matching_records_printed
          [where net = "always (body three_laureates)" and self = default_fetcher
             and members = "[(''laureates'', JArr three_laureates)]"
             and records = three_laureates and Y = 1903]
  by (simp add: always_def body_def three_laureates_def has_year_def matches_def
      year_of_laureate int_of_str_1903 int_of_str_2001 displayable_laureate
      record_block_laureate)

text \<open>
  C1 as stated fails: a response with one record, whose first prize is of the requested
  year 2001 but which has no key \<^verbatim>\<open>knownName\<close>, has \<open>K = 1\<close>, and the method prints no
  block for it: the display routine logs the missing key and skips the record.
\<close>

theorem matching_record_without_name_not_printed:
  "length (filter (matches 2001) [no_name]) = 1
   \<and> find_specific_year_laureates_info default_fetcher (always (body [no_name])) 2001 =
       ([HttpGet (url_with_params default_fetcher) 8,
         Log ERROR [Lit ''Failed to print laureate info: '',
                    Str_exc (KeyError (JStr ''knownName''))] []],
        Ret (default_fetcher\<lparr>all_laureates_data := JArr [no_name]\<rparr>))
   \<and> count_blocks (fst (find_specific_year_laureates_info default_fetcher
                          (always (body [no_name])) 2001)) = 0"
proof -
  have a: "award_year_of no_name = Inr 2001"
    by (rule year_of_award_year_of [OF year_of_no_name])
  have p: "print_single_laureate_info no_name =
      ([Log ERROR [Lit ''Failed to print laureate info: '',
                   Str_exc (KeyError (JStr ''knownName''))] []], Ret ())"
    by (simp add: print_single_laureate_info_def laureate_fields_def no_name_def)
  have r: "report (JArr [no_name]) 2001 =
      ([Log ERROR [Lit ''Failed to print laureate info: '',
                   Str_exc (KeyError (JStr ''knownName''))] []], Ret ())"
    by (simp add: report_def a p)
  have f: "find_specific_year_laureates_info default_fetcher (always (body [no_name])) 2001 =
       ([HttpGet (url_with_params default_fetcher) 8] @
        [Log ERROR [Lit ''Failed to print laureate info: '',
                    Str_exc (KeyError (JStr ''knownName''))] []],
        Ret (default_fetcher\<lparr>all_laureates_data := JArr [no_name]\<rparr>))"
    by (rule find_returned [OF fetch_body r])
  show ?thesis
    unfolding f by (simp add: matches_def year_of_no_name count_blocks_def separator_def)
qed

text \<open>
  C2. The claim: a record without the key \<^verbatim>\<open>nobelPrizes\<close> is logged as an error and
  skipped, and the records after it are processed. The display routine alone does log
  such a record and return. The scan, however, reads \<^verbatim>\<open>nobelPrizes\<close> of every record
  before it calls the display routine, outside any \<^verbatim>\<open>try\<close>: for a list of such a
  record followed by a laureate of the requested year 2001, the \<^verbatim>\<open>KeyError\<close> leaves the
  method, nothing is logged and the laureate is not printed.
\<close>

theorem missing_prizes_raises_in_scan:
  "find_specific_year_laureates_info default_fetcher
       (always (body [no_prizes, laureate ''Wolfgang Ketterle'' ''2001'' ''MIT''])) 2001 =
     ([HttpGet (url_with_params default_fetcher) 8], Raised (KeyError (JStr ''nobelPrizes'')))
   \<and> print_single_laureate_info no_prizes =
     ([Log ERROR [Lit ''Failed to print laureate info: '', Str_exc (KeyError prizes_not_found)] []],
      Ret ())"
proof -
  have a: "award_year_of no_prizes = Inl (KeyError (JStr ''nobelPrizes''))"
    by (simp add: award_year_of_def no_prizes_def)
  have r: "report (JArr [no_prizes, laureate ''Wolfgang Ketterle'' ''2001'' ''MIT'']) 2001 =
      ([], Raised (KeyError (JStr ''nobelPrizes'')))"
    by (simp add: report_def a)
  have p: "print_single_laureate_info no_prizes =
     ([Log ERROR [Lit ''Failed to print laureate info: '', Str_exc (KeyError prizes_not_found)] []],
      Ret ())"
    by (simp add: print_single_laureate_info_def laureate_fields_def no_prizes_def)
  show ?thesis
    using find_raised [OF fetch_body r, of default_fetcher] p by simp
qed

text \<open>
  C3. For every input, when the line of read \<open>n\<close> is the first that is an integer from
  2000 to 2023, the collector answers each earlier line, after its prompt, with the
  message that it is not a number (when it does not parse as an integer) or that it is
  not a year of the range (when it does), prompts again, and returns the integer of
  line \<open>n\<close>. Whenever it returns, the value is between 2000 and 2023.
\<close>

theorem get_year_from_user_first_accepted:
  "(\<forall>n line year.
       inp n = Some line \<and> accepted line = Some year
       \<and> (\<forall>i<n. \<exists>l. inp i = Some l \<and> accepted l = None) \<longrightarrow>
       get_year_from_user inp =
         Some (concat (map (\<lambda>i. rejection (the (inp i))) [0..<n]) @ [prompt], Ret year))
   \<and> (\<forall>tr y. get_year_from_user inp = Some (tr, Ret y) \<longrightarrow> 2000 \<le> y \<and> y \<le> 2023)"
proof -
  have first: "get_year_from_user inp =
         Some (concat (map (\<lambda>i. rejection (the (inp i))) [0..<n]) @ [prompt], Ret year)"
    if "inp n = Some line" and "accepted line = Some year"
      and "\<forall>i<n. \<exists>l. inp i = Some l \<and> accepted l = None"
    for n line year
    using that get_year_loop_first_accepted [of inp n line year 0 "[]"]
    by (simp add: get_year_from_user_def)
  have range: "2000 \<le> y \<and> y \<le> 2023" if "get_year_from_user inp = Some (tr, Ret y)" for tr y
    using that get_year_loop_in_range [of inp 0 "[]" "(tr, Ret y)"]
    by (simp add: get_year_from_user_def)
  show ?thesis
    using first range by blast
qed

theorem get_year_from_user_first_accepted_witness:
  "get_year_from_user typed =
     Some ([prompt, Print [Lit (''Entered value is not a number! Try again.'' @ [CHR 0x0A])],
            prompt, Print [Lit ''Entered number is not a year between 2000 and 2023!''],
                    Print [Lit (''Try again.'' @ [CHR 0x0A])],
            prompt], Ret 2005)
   \<and> (2000::int) \<le> 2005 \<and> (2005::int) \<le> 2023"
proof -
  have r: "\<forall>i<2. \<exists>l. typed i = Some l \<and> accepted l = None"
    by (simp add: typed_def accepted_def int_of_str_abc int_of_str_1999 less_Suc_eq numeral_2_eq_2)
  have a: "typed 2 = Some ''2005''" "accepted ''2005'' = Some 2005"
    by (simp_all add: typed_def accepted_def int_of_str_2005)
  have u: "[0..<2] = [0, Suc 0]"
    by (simp add: numeral_2_eq_2 upt_rec)
  from get_year_from_user_first_accepted [of typed] a r
  have "get_year_from_user typed =
         Some (concat (map (\<lambda>i. rejection (the (typed i))) [0..<2]) @ [prompt], Ret 2005)"
    by blast
  then show ?thesis
    by (simp add: u typed_def rejection_def int_of_str_abc int_of_str_1999 not_a_number_def
        not_a_year_def)
qed


text \<open>
  C4. When the decoded body is a JSON object without the key \<^verbatim>\<open>laureates\<close>, the fetch
  logs the warning \<^verbatim>\<open>No 'laureates' in response data\<close> and returns the empty list
  instead of failing; when the key is there, it returns exactly the value stored under it.
\<close>

theorem get_laureates_data_of_object:
  assumes "net (url_with_params self) = Json (JObj members)"
  shows "get_laureates_data self net =
     (case map_of members ''laureates'' of
        None \<Rightarrow>
          ([HttpGet (url_with_params self) 8,
            Log WARNING [Lit (''No '' @ [CHR 0x27] @ ''laureates'' @ [CHR 0x27]
                              @ '' in response data'')] []],
           Ret (JArr []))
      | Some v \<Rightarrow> ([HttpGet (url_with_params self) 8], Ret v))"
  using assms by (simp add: get_laureates_data_def try_block_obj split: option.split)

theorem get_laureates_data_of_object_witness:
  "get_laureates_data default_fetcher (always (Json (JObj [(''count'', JInt 0)]))) =
     ([HttpGet (url_with_params default_fetcher) 8,
       Log WARNING [Lit (''No '' @ [CHR 0x27] @ ''laureates'' @ [CHR 0x27]
                         @ '' in response data'')] []],
      Ret (JArr []))
   \<and> get_laureates_data default_fetcher
         (always (body [laureate ''Marie Curie'' ''1903'' ''University of Paris''])) =
     ([HttpGet (url_with_params default_fetcher) 8],
      Ret (JArr [laureate ''Marie Curie'' ''1903'' ''University of Paris'']))"
  using get_laureates_data_of_object
          [of "always (Json (JObj [(''count'', JInt 0)]))" default_fetcher "[(''count'', JInt 0)]"]
        get_laureates_data_of_object
          [of "always (body [laureate ''Marie Curie'' ''1903'' ''University of Paris''])"
              default_fetcher
              "[(''laureates'', JArr [laureate ''Marie Curie'' ''1903'' ''University of Paris''])]"]
  by (simp add: always_def body_def)

text \<open>
  C5. For every requested year, when the fetch returns the empty list, the method logs the
  error \<^verbatim>\<open>Laureates data not found!\<close>, prints no line, and returns with nothing else
  done than storing the fetched list.
\<close>

theorem empty_data_not_found:
  assumes "get_laureates_data self net = (tr, Ret (JArr []))"
  shows "find_specific_year_laureates_info self net award_year =
           (tr @ [Log ERROR [Lit ''Laureates data not found!''] []],
            Ret (self\<lparr>all_laureates_data := JArr []\<rparr>))
       \<and> printed (fst (find_specific_year_laureates_info self net award_year)) = []"
proof -
  have r: "report (JArr []) award_year =
      ([Log ERROR [Lit ''Laureates data not found!''] []], Ret ())"
    by (simp add: report_def)
  have f: "find_specific_year_laureates_info self net award_year =
           (tr @ [Log ERROR [Lit ''Laureates data not found!''] []],
            Ret (self\<lparr>all_laureates_data := JArr []\<rparr>))"
    by (rule find_returned [OF assms r])
  have "printed tr = []"
    using printed_fetch [of self net] assms by simp
  then show ?thesis
    using f by (simp add: printed_append) (simp add: printed_def)
qed

theorem empty_data_not_found_witness:
  "find_specific_year_laureates_info default_fetcher (always (body [])) 2005 =
     ([HttpGet (url_with_params default_fetcher) 8,
       Log ERROR [Lit ''Laureates data not found!''] []],
      Ret (default_fetcher\<lparr>all_laureates_data := JArr []\<rparr>))
   \<and> printed (fst (find_specific_year_laureates_info default_fetcher (always (body [])) 2005))
       = []"
  using empty_data_not_found [OF fetch_body [of default_fetcher "[]"], of 2005]
  by (simp add: printed_def)

text \<open>
  C6. The claim: for every non-empty list of records in which no record's first prize
  award year equals the requested year, the method prints no block and, after the scan,
  logs the information that no laureates were found in that year. The scan reads the
  award year of every record outside any \<^verbatim>\<open>try\<close>: for the list of a laureate of 1903
  followed by a record without the key \<^verbatim>\<open>nobelPrizes\<close>, and the requested year 2005,
  no record's award year is 2005, yet the \<^verbatim>\<open>KeyError\<close> of the second record leaves the
  method and no call of the logger is made.
\<close>

theorem no_match_scan_raises:
  "filter (matches 2005) [laureate ''Marie Curie'' ''1903'' ''University of Paris'', no_prizes] = []
   \<and> find_specific_year_laureates_info default_fetcher
         (always (body [laureate ''Marie Curie'' ''1903'' ''University of Paris'', no_prizes]))
         2005 =
       ([HttpGet (url_with_params default_fetcher) 8], Raised (KeyError (JStr ''nobelPrizes'')))
   \<and> emissions (fst (find_specific_year_laureates_info default_fetcher
         (always (body [laureate ''Marie Curie'' ''1903'' ''University of Paris'', no_prizes]))
         2005)) = []"
proof -
  have y: "year_of (laureate ''Marie Curie'' ''1903'' ''University of Paris'') = Some 1903"
    by (simp add: year_of_laureate int_of_str_1903)
  have a: "award_year_of (laureate ''Marie Curie'' ''1903'' ''University of Paris'') = Inr 1903"
    by (rule year_of_award_year_of [OF y])
  have b: "award_year_of no_prizes = Inl (KeyError (JStr ''nobelPrizes''))"
    by (simp add: award_year_of_def no_prizes_def)
  have r: "report (JArr [laureate ''Marie Curie'' ''1903'' ''University of Paris'', no_prizes])
             2005 = ([], Raised (KeyError (JStr ''nobelPrizes'')))"
    by (simp add: report_def a b)
  have f: "find_specific_year_laureates_info default_fetcher
         (always (body [laureate ''Marie Curie'' ''1903'' ''University of Paris'', no_prizes]))
         2005 =
       ([HttpGet (url_with_params default_fetcher) 8] @ [],
        Raised (KeyError (JStr ''nobelPrizes'')))"
    by (rule find_raised [OF fetch_body r])
  show ?thesis
    unfolding f by (simp add: matches_def y year_of_no_prizes)
qed

text \<open>
  C7. For a client constructed with category \<open>c\<close>, API version \<open>v\<close> and the years \<open>a\<close>
  and \<open>b\<close>, the request URL is \<^verbatim>\<open>https://api.nobelprize.org/{v}/laureates\<close> followed
  by the query string with \<^verbatim>\<open>limit=5000\<close>, \<^verbatim>\<open>nobelPrizeYear={a}\<close>, \<^verbatim>\<open>yearTo={b}\<close>,
  \<^verbatim>\<open>format=json\<close> and \<^verbatim>\<open>nobelPrizeCategory={c}\<close>. It is fixed at construction:
  whatever year is asked for later, the method issues exactly one GET request, to this
  URL. For the client of the program it is the URL written out below.
\<close>

theorem request_url_fixed_at_construction:
  "url_with_params (init c v a b) =
     ''https://api.nobelprize.org/'' @ v @ ''/laureates'' @ ''?'' @ ''limit=5000'' @
     ''&nobelPrizeYear='' @ str_int a @ ''&yearTo='' @ str_int b @ ''&format=json'' @
     ''&nobelPrizeCategory='' @ c
   \<and> requests (fst (find_specific_year_laureates_info (init c v a b) net award_year)) =
       [HttpGet (url_with_params (init c v a b)) 8]
   \<and> url_with_params default_fetcher =
       ''https://api.nobelprize.org/2.1/laureates?limit=5000&nobelPrizeYear=2000&yearTo=2023&format=json&nobelPrizeCategory=phy''"
proof -
  have "str_int 2000 = ''2000''" and "str_int 2023 = ''2023''"
    by (simp_all add: str_int_def str_nat.simps)
  then show ?thesis
    by (simp add: requests_find url_with_params_def init_def default_fetcher_def)
qed

text \<open>
  C8. The claim: when the GET request fails with a transport failure (a timeout, a
  redirect loop or any other request error), the program logs an error describing the
  failure and ends the process with status 1, without returning to the caller and without
  printing a block. For a request error that is neither a timeout nor a redirect loop,
  here a failed connection, the process does end with status 1 and nothing is printed, but
  the handler calls \<^verbatim>\<open>logging.error\<close> with the exception as a further argument of a
  message that has no place for it: the formatting fails and no error record is emitted.
  For a timeout the record is emitted.
\<close>

theorem request_error_not_logged:
  "find_specific_year_laureates_info default_fetcher (always (Raises connection_error)) 2005 =
     ([HttpGet (url_with_params default_fetcher) 8,
       Log ERROR [Lit ''A request error occurred:''] [connection_error]],
      Exited 1)
   \<and> emissions (fst (find_specific_year_laureates_info default_fetcher
                       (always (Raises connection_error)) 2005)) = [Logging_error]
   \<and> printed (fst (find_specific_year_laureates_info default_fetcher
                     (always (Raises connection_error)) 2005)) = []
   \<and> emissions (fst (find_specific_year_laureates_info default_fetcher
                       (always (Raises Timeout)) 2005)) =
       [Logged ERROR [Lit ''Request timed out'']]"
proof -
  have c: "find_specific_year_laureates_info default_fetcher
             (always (Raises connection_error)) 2005 =
     ([HttpGet (url_with_params default_fetcher) 8,
       Log ERROR [Lit ''A request error occurred:''] [connection_error]],
      Exited 1)"
    using request_exception_exits
            [where net = "always (Raises connection_error)" and self = default_fetcher
               and e = connection_error and award_year = 2005]
    by (simp add: always_def connection_error_def)
  have t: "find_specific_year_laureates_info default_fetcher (always (Raises Timeout)) 2005 =
     ([HttpGet (url_with_params default_fetcher) 8, Log ERROR [Lit ''Request timed out''] []],
      Exited 1)"
    using request_exception_exits
            [where net = "always (Raises Timeout)" and self = default_fetcher
               and e = Timeout and award_year = 2005]
    by (simp add: always_def)
  show ?thesis
    unfolding c t by (simp add: emit_def printed_def)
qed

text \<open>
  C9 (as amended). For every record whose English display name is present, and whose key
  \<^verbatim>\<open>nobelPrizes\<close> maps to an empty list, or whose first prize has an award year and a
  key \<^verbatim>\<open>affiliations\<close> that maps to an empty list, the display routine raises an
  \<^verbatim>\<open>IndexError\<close>, which its handler for \<^verbatim>\<open>KeyError\<close> does not catch: nothing is
  printed or logged, and the exception leaves the routine.
\<close>

theorem empty_list_raises_index_error:
  assumes "display_name r = Some n"
    and "follow r [Member ''nobelPrizes''] = Some (JArr [])
         \<or> (first_award_year r = Some y
            \<and> follow r [Member ''nobelPrizes'', First, Member ''affiliations''] = Some (JArr []))"
  shows "print_single_laureate_info r = ([], Raised IndexError)"
proof -
  have "laureate_fields r = Inl IndexError"
    using assms
    by (auto simp: display_name_def first_award_year_def follow_iff laureate_fields_def
        contains_obj simp del: contains.simps(1))
  then show ?thesis
    by (simp add: print_single_laureate_info_def)
qed

theorem empty_list_raises_index_error_witness:
  "print_single_laureate_info empty_prizes = ([], Raised IndexError)
   \<and> print_single_laureate_info no_affiliations = ([], Raised IndexError)"
  using empty_list_raises_index_error [of empty_prizes "JStr ''B. Lank''" "JStr ''2001''"]
        empty_list_raises_index_error [of no_affiliations "JStr ''C. Lone''" "JStr ''2001''"]
  by (simp add: display_name_def first_award_year_def empty_prizes_def no_affiliations_def)


text \<open>
  C9 as stated fails: a record whose key \<^verbatim>\<open>nobelPrizes\<close> maps to an empty list but
  which has no key \<^verbatim>\<open>knownName\<close> is logged and skipped, since the display name is read
  first and its \<^verbatim>\<open>KeyError\<close> is caught; no exception leaves the routine.
\<close>

theorem empty_prizes_without_name_logged:
  "follow no_name_empty_prizes [Member ''nobelPrizes''] = Some (JArr [])
   \<and> print_single_laureate_info no_name_empty_prizes =
     ([Log ERROR [Lit ''Failed to print laureate info: '',
                  Str_exc (KeyError (JStr ''knownName''))] []], Ret ())"
  by (simp add: print_single_laureate_info_def laureate_fields_def no_name_empty_prizes_def)

text \<open>
  C10 (as amended). When an exception leaves the \<^verbatim>\<open>try\<close> block of the fetch (the body
  is not valid JSON, or any other exception is raised while fetching or parsing), the
  clause that catches it calls \<^verbatim>\<open>logging.error\<close> and ends the process with status 1,
  the fatal outcome of a transport failure, instead of returning an empty result. The
  catch-all clause is the one that does so when the exception is not a request exception;
  a request exception, as the decoding error of the HTTP library is, is caught by the
  clause of its class before.
\<close>

theorem fetch_exception_exits:
  assumes "try_block (net (url_with_params self)) = Inl e"
  shows "get_laureates_data self net =
           ([HttpGet (url_with_params self) 8,
             (if is_request_exception e
              then (case e of Timeout \<Rightarrow> Log ERROR [Lit ''Request timed out''] []
                            | TooManyRedirects \<Rightarrow> Log ERROR [Lit ''Too many redirects''] []
                            | _ \<Rightarrow> Log ERROR [Lit ''A request error occurred:''] [e])
              else Log ERROR [Lit ''An unexpected error occurred:''] [e])],
            Exited 1)
       \<and> find_specific_year_laureates_info self net award_year =
           (fst (get_laureates_data self net), Exited 1)
       \<and> printed (fst (find_specific_year_laureates_info self net award_year)) = []"
proof -
  have g: "get_laureates_data self net =
      ([HttpGet (url_with_params self) 8, except_clause e], Exited 1)"
    using assms by (rule get_laureates_data_Inl)
  have c: "except_clause e =
      (if is_request_exception e
       then (case e of Timeout \<Rightarrow> Log ERROR [Lit ''Request timed out''] []
                     | TooManyRedirects \<Rightarrow> Log ERROR [Lit ''Too many redirects''] []
                     | _ \<Rightarrow> Log ERROR [Lit ''A request error occurred:''] [e])
       else Log ERROR [Lit ''An unexpected error occurred:''] [e])"
    by (cases e) simp_all
  have f: "find_specific_year_laureates_info self net award_year =
      ([HttpGet (url_with_params self) 8, except_clause e], Exited 1)"
    by (rule find_exited [OF g])
  have p: "printed [HttpGet (url_with_params self) 8, except_clause e] = []"
    by (simp add: printed_def)
  show ?thesis
    unfolding f g using c p by simp
qed

theorem fetch_exception_exits_witness:
  "get_laureates_data default_fetcher (always (Raises json_decode_error)) =
     ([HttpGet (url_with_params default_fetcher) 8,
       Log ERROR [Lit ''A request error occurred:''] [json_decode_error]], Exited 1)
   \<and> get_laureates_data default_fetcher (always (Json (JInt 5))) =
     ([HttpGet (url_with_params default_fetcher) 8,
       Log ERROR [Lit ''An unexpected error occurred:''] [TypeError]], Exited 1)
   \<and> find_specific_year_laureates_info default_fetcher (always (Json (JInt 5))) 2005 =
     ([HttpGet (url_with_params default_fetcher) 8,
       Log ERROR [Lit ''An unexpected error occurred:''] [TypeError]], Exited 1)"
  using fetch_exception_exits
          [where net = "always (Raises json_decode_error)" and self = default_fetcher
             and e = json_decode_error and award_year = 2005]
        fetch_exception_exits
          [where net = "always (Json (JInt 5))" and self = default_fetcher and e = TypeError
             and award_year = 2005]
  by (simp add: always_def try_block_def json_decode_error_def)

text \<open>
  C10 as stated fails: for a body that is not valid JSON the decoding error is a request
  exception, so the clause for request exceptions handles it, with the message of a
  request error; the catch-all clause, whose message is that of an unexpected error, is
  not reached.
\<close>

theorem invalid_body_not_in_catch_all:
  "is_request_exception json_decode_error
   \<and> get_laureates_data default_fetcher (always (Raises json_decode_error)) =
       ([HttpGet (url_with_params default_fetcher) 8,
         Log ERROR [Lit ''A request error occurred:''] [json_decode_error]], Exited 1)
   \<and> get_laureates_data default_fetcher (always (Raises json_decode_error)) \<noteq>
       ([HttpGet (url_with_params default_fetcher) 8,
         Log ERROR [Lit ''An unexpected error occurred:''] [json_decode_error]], Exited 1)"
  by (simp add: get_laureates_data_def always_def try_block_def json_decode_error_def)

end
